theory Spec2Isabelle
  imports Main
begin

section \<open>The celo mainnet configuration module\<close>

text \<open>
  The module \<^verbatim>\<open>typescript/optics-deploy/config/mainnets/celo.ts\<close> is a sequence of
  top-level statements. Evaluating it reads two variables of \<^verbatim>\<open>process.env\<close>,
  may throw, and otherwise exports four values: \<^verbatim>\<open>chainJson\<close>, \<^verbatim>\<open>chain\<close>,
  \<^verbatim>\<open>config\<close> and \<^verbatim>\<open>bridgeConfig\<close>.

  The environment is a dictionary from variable names to strings; a variable that is
  not set reads as \<^verbatim>\<open>undefined\<close>, here \<open>None\<close>. The map stands for
  \<^verbatim>\<open>process.env\<close> as it is after line 6 (\<^verbatim>\<open>dotenv.config()\<close>), when line 8
  reads it.
\<close>

type_synonym env = "string \<rightharpoonup> string"

text \<open>
  \<^verbatim>\<open>new Error(message)\<close>: the only kind of error the module creates. A statement
  either completes normally with a value or throws.
\<close>

datatype error = Error string

datatype 'a completion = Normal 'a | Throw error

text \<open>
  The object literal of lines 13 to 18. The type \<^verbatim>\<open>ChainJson\<close> is imported from
  \<^verbatim>\<open>../../src/chain\<close>; the record has the four properties the literal gives.
  \<^verbatim>\<open>deployerKey\<close> is read from the environment and may be \<^verbatim>\<open>undefined\<close>.
\<close>

record ChainJson =
  name :: string
  rpc :: string
  deployerKey :: "string option"
  domain :: int

text \<open>
  Lines 8 to 11:
  \<^verbatim>\<open>
  const rpc = process.env.CELO_RPC;
  if (!rpc) { throw new Error('Missing RPC URI'); }
  \<close>
  \<^verbatim>\<open>!rpc\<close> holds of \<^verbatim>\<open>undefined\<close> and of the empty string, and of no other
  string.
\<close>

definition celo_rpc :: "env \<Rightarrow> string completion" where
  "celo_rpc e =
     (case e ''CELO_RPC'' of
        None \<Rightarrow> Throw (Error ''Missing RPC URI'')
      | Some r \<Rightarrow> if r = [] then Throw (Error ''Missing RPC URI'') else Normal r)"

text \<open>
  Lines 13 to 18: the descriptor, built once the check of line 9 has passed. The number
  of line 17 is kept as the source writes it (its comment there names another tag).
\<close>

definition chainJson :: "env \<Rightarrow> ChainJson completion" where
  "chainJson e =
     (case celo_rpc e of
        Throw err \<Rightarrow> Throw err
      | Normal r \<Rightarrow>
          Normal \<lparr>name = ''celo'', rpc = r, deployerKey = e ''CELO_DEPLOYER_KEY'',
                  domain = 0x63656c6f\<rparr>)"

text \<open>
  Lines 22 to 32: the literal \<^verbatim>\<open>config\<close>. The type \<^verbatim>\<open>CoreConfig\<close> is imported
  from \<^verbatim>\<open>../../src/core/CoreDeploy\<close>; the record has the eight properties the literal
  gives (\<^verbatim>\<open>governor\<close> is commented out in the source). The two durations are
  written as products, as in the source.
\<close>

record CoreConfig =
  environment :: string
  updater :: string
  recoveryTimelock :: int
  recoveryManager :: string
  optimisticSeconds :: int
  watchers :: "string list"
  processGas :: int
  reserveGas :: int

definition config :: CoreConfig where
  "config =
     \<lparr>environment = ''prod'',
      updater = ''0xDB2091535eb0Ee447Ce170DDC25204FEA822dd81'',
      recoveryTimelock = 60 * 60 * 24,
      recoveryManager = ''0x3D9330014952Bf0A3863FEB7a657bfFA5C9D40B9'',
      optimisticSeconds = 60 * 60 * 3,
      watchers = [''0xeE42B7757798cf495CDaA8eDb0CC237F07c60C81''],
      processGas = 850000,
      reserveGas = 15000\<rparr>"

text \<open>
  Line 34: \<^verbatim>\<open>bridgeConfig = {}\<close>. The type \<^verbatim>\<open>BridgeConfig\<close> is imported from
  \<^verbatim>\<open>../../src/bridge/BridgeDeploy\<close>; an object of it is modelled by the list of its
  own properties, key and value, in insertion order. The literal has none.
\<close>

type_synonym BridgeConfig = "(string \<times> string) list"

definition bridgeConfig :: BridgeConfig where
  "bridgeConfig = []"

text \<open>
  The whole module. Line 20 calls \<^verbatim>\<open>toChain\<close>, a function of \<^verbatim>\<open>../../src/chain\<close>
  whose body is not part of this file: it is a parameter, and it may throw. An importer
  gets the exports only when every statement has completed normally; a throw at line 10
  or inside \<^verbatim>\<open>toChain\<close> ends the evaluation and the importer gets the error.
\<close>

record 'c celo_exports =
  exp_chainJson :: ChainJson
  exp_chain :: 'c
  exp_config :: CoreConfig
  exp_bridgeConfig :: BridgeConfig

definition celo :: "(ChainJson \<Rightarrow> 'c completion) \<Rightarrow> env \<Rightarrow> 'c celo_exports completion" where
  "celo toChain e =
     (case chainJson e of
        Throw err \<Rightarrow> Throw err
      | Normal cj \<Rightarrow>
          (case toChain cj of
             Throw err \<Rightarrow> Throw err
           | Normal c \<Rightarrow>
               Normal \<lparr>exp_chainJson = cj, exp_chain = c, exp_config = config,
                       exp_bridgeConfig = bridgeConfig\<rparr>))"

section \<open>Notions the properties are stated with\<close>

text \<open>
  The domain identifier of a chain is, by convention, a short ASCII tag read as a
  big-endian integer: the first byte is the most significant. This is that reading,
  written from the convention's words, to be compared with the number the source
  gives at line 17.
\<close>

definition asciiTagBigEndian :: "string \<Rightarrow> int" where
  "asciiTagBigEndian tag = foldl (\<lambda>acc c. acc * 256 + of_char c) 0 tag"

text \<open>
  The specification asks for well-formed addresses and does not say what they are. The
  property stated of the address literals of the source is the usual written form of an
  account address on these chains: \<^verbatim>\<open>0x\<close> and forty hexadecimal digits, of either
  case.
\<close>

definition isHexDigit :: "char \<Rightarrow> bool" where
  "isHexDigit c = (c \<in> set ''0123456789abcdefABCDEF'')"

definition isHexAddress :: "string \<Rightarrow> bool" where
  "isHexAddress s = (length s = 42 \<and> take 2 s = ''0x'' \<and> list_all isHexDigit (drop 2 s))"

section \<open>The validator of the core configuration, and the bridge extension\<close>

text \<open>
  The module only writes the literal \<^verbatim>\<open>config\<close> and calls no validator; the modules
  \<^verbatim>\<open>../../src/core/CoreDeploy\<close> and \<^verbatim>\<open>../../src/bridge/BridgeDeploy\<close>, which it
  imports for their types, are not part of the sources studied here. The definitions of
  this section are written from the specification, sections 3, 4.2, 4.3 and 7.
\<close>

text \<open>
  Modelled from the spec: the error taxonomy of section 7, for the missing validator.
  An error of a field carries the field's name (section 8: the report names the field).
\<close>

datatype violation =
    MissingRequiredField string
  | InvalidAddress string
  | InvalidDuration string
  | DuplicateWatcher
  | InvalidGasBudget string

text \<open>
  Modelled from the spec: the missing check of one address field (section 4.2:
  \<^verbatim>\<open>updater\<close> and \<^verbatim>\<open>recoveryManager\<close> are well-formed addresses; section 7:
  \<^verbatim>\<open>InvalidAddress\<close>). The specification does not say what a well-formed address is:
  the test is the parameter \<open>isAddress\<close>.
\<close>

definition validateAddress :: "(string \<Rightarrow> bool) \<Rightarrow> string \<Rightarrow> string \<Rightarrow> violation list" where
  "validateAddress isAddress field a = (if isAddress a then [] else [InvalidAddress field])"

text \<open>
  Modelled from the spec: the missing check of one duration (section 4.2:
  \<^verbatim>\<open>recoveryTimelock\<close> and \<^verbatim>\<open>optimisticSeconds\<close> are at least 0; section 7:
  \<^verbatim>\<open>InvalidDuration\<close>, the value is negative).
\<close>

definition validateDuration :: "string \<Rightarrow> int \<Rightarrow> violation list" where
  "validateDuration field d = (if d < 0 then [InvalidDuration field] else [])"

text \<open>
  Modelled from the spec: the missing check of the watchers (section 4.2: every entry
  is a well-formed address and the set has no duplicates; section 7:
  \<^verbatim>\<open>DuplicateWatcher\<close>, the set contains a repeated address). The watchers are the
  array of line 28.
\<close>

definition validateWatchers :: "(string \<Rightarrow> bool) \<Rightarrow> string list \<Rightarrow> violation list" where
  "validateWatchers isAddress ws =
     concat (map (validateAddress isAddress ''watchers'') ws) @
     (if distinct ws then [] else [DuplicateWatcher])"

text \<open>
  Modelled from the spec: the missing check of the gas budgets (section 4.2:
  \<^verbatim>\<open>processGas\<close> is above 0 and \<^verbatim>\<open>reserveGas\<close> at least 0; section 7:
  \<^verbatim>\<open>InvalidGasBudget\<close>).
\<close>

definition validateGas :: "int \<Rightarrow> int \<Rightarrow> violation list" where
  "validateGas p r =
     (if 0 < p then [] else [InvalidGasBudget ''processGas'']) @
     (if 0 \<le> r then [] else [InvalidGasBudget ''reserveGas''])"

text \<open>
  Modelled from the spec: the missing validator of CoreSecurityConfig (section 4.2). All
  rules are checked and every violated one is reported, in the order the section lists
  them, rather than the first only.
\<close>

definition validateCoreConfig :: "(string \<Rightarrow> bool) \<Rightarrow> CoreConfig \<Rightarrow> violation list" where
  "validateCoreConfig isAddress c =
     validateAddress isAddress ''updater'' (updater c) @
     validateAddress isAddress ''recoveryManager'' (recoveryManager c) @
     validateDuration ''recoveryTimelock'' (recoveryTimelock c) @
     validateDuration ''optimisticSeconds'' (optimisticSeconds c) @
     validateWatchers isAddress (watchers c) @
     validateGas (processGas c) (reserveGas c)"

text \<open>
  Modelled from the spec: the output of the missing validator (section 4.2), "a
  validated CoreSecurityConfig, or a fail result enumerating every violated invariant".
\<close>

definition validatedCoreConfig :: "(string \<Rightarrow> bool) \<Rightarrow> CoreConfig \<Rightarrow> violation list + CoreConfig" where
  "validatedCoreConfig isAddress c =
     (case validateCoreConfig isAddress c of [] \<Rightarrow> Inr c | v # vs \<Rightarrow> Inl (v # vs))"

text \<open>
  Modelled from the spec: the missing builder of BridgeExtensionConfig (section 4.3). It
  hands on the record it is given, unchanged and unchecked, and the empty record when it
  is given none.
\<close>

definition buildBridgeConfig :: "BridgeConfig option \<Rightarrow> BridgeConfig" where
  "buildBridgeConfig given = (case given of None \<Rightarrow> [] | Some b \<Rightarrow> b)"

text \<open>
  Modelled from the spec: the missing deployment pipeline's reading of the record
  (section 3), "presence of content implies the bridge module will be deployed; absence
  implies it will not".
\<close>

definition bridgeModuleDeployed :: "BridgeConfig \<Rightarrow> bool" where
  "bridgeModuleDeployed b = (b \<noteq> [])"

section \<open>The descriptor and the RPC endpoint\<close>

lemma celo_rpc_missing:
  "e ''CELO_RPC'' = None \<or> e ''CELO_RPC'' = Some [] \<Longrightarrow>
   celo_rpc e = Throw (Error ''Missing RPC URI'')"
  by (auto simp: celo_rpc_def)

lemma celo_rpc_present:
  "e ''CELO_RPC'' = Some r \<Longrightarrow> r \<noteq> [] \<Longrightarrow> celo_rpc e = Normal r"
  by (simp add: celo_rpc_def)

lemma chainJson_eq:
  "chainJson e =
     (if e ''CELO_RPC'' = None \<or> e ''CELO_RPC'' = Some [] then Throw (Error ''Missing RPC URI'')
      else Normal \<lparr>name = ''celo'', rpc = the (e ''CELO_RPC''),
                   deployerKey = e ''CELO_DEPLOYER_KEY'', domain = 0x63656c6f\<rparr>)"
  by (auto simp: chainJson_def celo_rpc_def split: option.splits)

lemma chainJson_Throw_iff:
  "(\<exists>err. chainJson e = Throw err) \<longleftrightarrow> e ''CELO_RPC'' = None \<or> e ''CELO_RPC'' = Some []"
  by (auto simp: chainJson_eq)

lemma chainJson_Normal_rpc:
  "chainJson e = Normal cj \<Longrightarrow> rpc cj \<noteq> [] \<and> e ''CELO_RPC'' = Some (rpc cj)"
  by (auto simp: chainJson_eq split: if_splits)

text \<open>
  C1. Whenever \<^verbatim>\<open>CELO_RPC\<close> is unset or empty, building the descriptor throws the
  error \<^verbatim>\<open>Missing RPC URI\<close> (the module's missing-required-field error), and so does
  the whole module whatever \<^verbatim>\<open>toChain\<close> is: the error is not caught, nothing is
  retried and no default endpoint is put in its place. Whenever the variable holds a
  non-empty string, the check passes and the descriptor carries exactly that string.
\<close>

theorem rpc_required:
  "(e ''CELO_RPC'' = None \<or> e ''CELO_RPC'' = Some [] \<longrightarrow>
      chainJson e = Throw (Error ''Missing RPC URI'') \<and>
      celo toChain e = Throw (Error ''Missing RPC URI'')) \<and>
   (\<forall>r. e ''CELO_RPC'' = Some r \<and> r \<noteq> [] \<longrightarrow>
      (\<exists>cj. chainJson e = Normal cj \<and> rpc cj = r))"
  by (auto simp: chainJson_def celo_def celo_rpc_missing celo_rpc_present)

text \<open>The unset variable, the empty one, and the public endpoint of the network.\<close>

theorem rpc_required_witness:
  "chainJson Map.empty = Throw (Error ''Missing RPC URI'') \<and>
   celo Normal Map.empty = Throw (Error ''Missing RPC URI'') \<and>
   chainJson [''CELO_RPC'' \<mapsto> ''''] = Throw (Error ''Missing RPC URI'') \<and>
   (\<exists>cj. chainJson [''CELO_RPC'' \<mapsto> ''https://forno.celo.org''] = Normal cj \<and>
         rpc cj = ''https://forno.celo.org'')"
  using rpc_required [of Map.empty Normal]
    rpc_required [of "[''CELO_RPC'' \<mapsto> '''']" Normal]
    rpc_required [of "[''CELO_RPC'' \<mapsto> ''https://forno.celo.org'']" Normal]
  by simp

text \<open>
  C10. The deployer key is optional. With a non-empty \<^verbatim>\<open>CELO_RPC\<close> the descriptor is
  built whatever \<^verbatim>\<open>CELO_DEPLOYER_KEY\<close> holds, and carries that variable as it is:
  \<^verbatim>\<open>undefined\<close> when it is unset. Building the descriptor throws exactly when
  \<^verbatim>\<open>CELO_RPC\<close> is unset or empty, and unsetting any other variable never changes
  whether it throws. What \<^verbatim>\<open>toChain\<close> does with a descriptor that has no key is
  outside this module; for every \<^verbatim>\<open>toChain\<close> that returns on each descriptor, the
  whole module throws exactly when \<^verbatim>\<open>CELO_RPC\<close> is unset or empty.
\<close>

theorem deployerKey_optional:
  "(e ''CELO_RPC'' = Some r \<and> r \<noteq> [] \<longrightarrow>
      chainJson e = Normal \<lparr>name = ''celo'', rpc = r, deployerKey = e ''CELO_DEPLOYER_KEY'',
                            domain = 0x63656c6f\<rparr>) \<and>
   (e ''CELO_RPC'' = Some r \<and> r \<noteq> [] \<and> e ''CELO_DEPLOYER_KEY'' = None \<longrightarrow>
      (\<exists>cj. chainJson e = Normal cj \<and> deployerKey cj = None)) \<and>
   ((\<exists>err. chainJson e = Throw err) \<longleftrightarrow> e ''CELO_RPC'' = None \<or> e ''CELO_RPC'' = Some []) \<and>
   (k \<noteq> ''CELO_RPC'' \<longrightarrow>
      ((\<exists>err. chainJson (e(k := None)) = Throw err) \<longleftrightarrow> (\<exists>err. chainJson e = Throw err))) \<and>
   ((\<forall>cj. \<exists>c. toChain cj = Normal c) \<longrightarrow>
      ((\<exists>err. celo toChain e = Throw err) \<longleftrightarrow>
         e ''CELO_RPC'' = None \<or> e ''CELO_RPC'' = Some []))"
proof -
  have built: "chainJson e = Normal \<lparr>name = ''celo'', rpc = r,
      deployerKey = e ''CELO_DEPLOYER_KEY'', domain = 0x63656c6f\<rparr>"
    if "e ''CELO_RPC'' = Some r \<and> r \<noteq> []"
    using that by (simp add: chainJson_eq)
  have unset: "\<exists>cj. chainJson e = Normal cj \<and> deployerKey cj = None"
    if "e ''CELO_RPC'' = Some r \<and> r \<noteq> [] \<and> e ''CELO_DEPLOYER_KEY'' = None"
    using that by (simp add: chainJson_eq)
  have only: "(\<exists>err. chainJson (e(k := None)) = Throw err) \<longleftrightarrow> (\<exists>err. chainJson e = Throw err)"
    if "k \<noteq> ''CELO_RPC''"
    using that by (simp add: chainJson_Throw_iff)
  have whole: "(\<exists>err. celo toChain e = Throw err) \<longleftrightarrow>
      e ''CELO_RPC'' = None \<or> e ''CELO_RPC'' = Some []"
    if total: "\<forall>cj. \<exists>c. toChain cj = Normal c"
  proof (cases "chainJson e")
    case (Throw err)
    then have "celo toChain e = Throw err" by (simp add: celo_def)
    with Throw chainJson_Throw_iff [of e] show ?thesis by auto
  next
    case (Normal cj)
    from total obtain c where "toChain cj = Normal c" by blast
    with Normal have "\<not> (\<exists>err. celo toChain e = Throw err)" by (simp add: celo_def)
    with Normal chainJson_Throw_iff [of e] show ?thesis by auto
  qed
  from built unset only whole chainJson_Throw_iff [of e] show ?thesis by blast
qed

text \<open>No key and an endpoint; a key and an endpoint; a key and no endpoint.\<close>

theorem deployerKey_optional_witness:
  "chainJson [''CELO_RPC'' \<mapsto> ''https://forno.celo.org''] =
     Normal \<lparr>name = ''celo'', rpc = ''https://forno.celo.org'', deployerKey = None,
             domain = 0x63656c6f\<rparr> \<and>
   chainJson [''CELO_RPC'' \<mapsto> ''https://forno.celo.org'', ''CELO_DEPLOYER_KEY'' \<mapsto> ''0xabc''] =
     Normal \<lparr>name = ''celo'', rpc = ''https://forno.celo.org'', deployerKey = Some ''0xabc'',
             domain = 0x63656c6f\<rparr> \<and>
   (\<exists>err. chainJson [''CELO_DEPLOYER_KEY'' \<mapsto> ''0xabc''] = Throw err) \<and>
   \<not> (\<exists>err. celo Normal [''CELO_RPC'' \<mapsto> ''https://forno.celo.org''] = Throw err)"
  using deployerKey_optional [of "[''CELO_RPC'' \<mapsto> ''https://forno.celo.org'']"
      "''https://forno.celo.org''" "''CELO_DEPLOYER_KEY''" Normal]
    deployerKey_optional [of "[''CELO_RPC'' \<mapsto> ''https://forno.celo.org'',
      ''CELO_DEPLOYER_KEY'' \<mapsto> ''0xabc'']" "''https://forno.celo.org''" "''CELO_DEPLOYER_KEY''" Normal]
    deployerKey_optional [of "[''CELO_DEPLOYER_KEY'' \<mapsto> ''0xabc'']" "''x''" "''CELO_DEPLOYER_KEY''" Normal]
  by simp

section \<open>How a failure reaches the importer\<close>

text \<open>
  C5, as the code has it. A failure of the module is one thrown error, raised while the
  module is evaluated: either the check of line 9 fails, and the error is
  \<^verbatim>\<open>Missing RPC URI\<close>, or the descriptor is built and \<^verbatim>\<open>toChain\<close> throws, and the
  error is the one it threw. Evaluation stops at the first of them; the module returns
  no failure value and gathers no list of violations.
\<close>

theorem failure_is_one_thrown_error:
  "celo toChain e = Throw err \<longleftrightarrow>
     (e ''CELO_RPC'' = None \<or> e ''CELO_RPC'' = Some []) \<and> err = Error ''Missing RPC URI'' \<or>
     (\<exists>cj. chainJson e = Normal cj \<and> toChain cj = Throw err)"
  by (auto simp: celo_def chainJson_eq split: completion.splits)

text \<open>
  With no endpoint and a \<^verbatim>\<open>toChain\<close> that would throw too, the importer sees the
  first error only.
\<close>

theorem failure_is_one_thrown_error_witness:
  "celo (\<lambda>cj. Throw (Error ''toChain'')) Map.empty = Throw (Error ''Missing RPC URI'') \<and>
   celo (\<lambda>cj. Throw (Error ''toChain'')) Map.empty \<noteq> Throw (Error ''toChain'')"
  using failure_is_one_thrown_error [of "\<lambda>cj. Throw (Error ''toChain'')" Map.empty
      "Error ''Missing RPC URI''"]
    failure_is_one_thrown_error [of "\<lambda>cj. Throw (Error ''toChain'')" Map.empty
      "Error ''toChain''"]
  by (simp add: chainJson_eq)

text \<open>
  C5, as the specification states it, says that a validation error is handed to the
  caller as a failure value and is not thrown. With \<^verbatim>\<open>CELO_RPC\<close> unset, line 10
  throws.
\<close>

theorem rpc_failure_is_thrown:
  "chainJson Map.empty = Throw (Error ''Missing RPC URI'')"
  by (simp add: chainJson_def celo_rpc_def)

section \<open>The module as a whole\<close>

text \<open>
  C6. The importer gets all of the configuration or none of it. When the module
  completes, the exports hold the descriptor that passed the check (its endpoint is not
  empty), the chain \<^verbatim>\<open>toChain\<close> made of that descriptor, the literal \<^verbatim>\<open>config\<close> and
  the literal \<^verbatim>\<open>bridgeConfig\<close>. It completes exactly when the descriptor is built
  and \<^verbatim>\<open>toChain\<close> returns; in every other case it throws, and a throw carries an
  error and no configuration value.
\<close>

theorem composition_all_or_nothing:
  "(celo toChain e = Normal ex \<longrightarrow>
      chainJson e = Normal (exp_chainJson ex) \<and> rpc (exp_chainJson ex) \<noteq> [] \<and>
      toChain (exp_chainJson ex) = Normal (exp_chain ex) \<and>
      exp_config ex = config \<and> exp_bridgeConfig ex = bridgeConfig) \<and>
   ((\<exists>cj c. chainJson e = Normal cj \<and> toChain cj = Normal c) \<longrightarrow>
      (\<exists>ex. celo toChain e = Normal ex)) \<and>
   (\<not> (\<exists>cj c. chainJson e = Normal cj \<and> toChain cj = Normal c) \<longrightarrow>
      (\<exists>err. celo toChain e = Throw err))"
proof -
  have full: "chainJson e = Normal (exp_chainJson ex) \<and> rpc (exp_chainJson ex) \<noteq> [] \<and>
      toChain (exp_chainJson ex) = Normal (exp_chain ex) \<and>
      exp_config ex = config \<and> exp_bridgeConfig ex = bridgeConfig"
    if h: "celo toChain e = Normal ex"
  proof -
    from h obtain cj where cj: "chainJson e = Normal cj"
      by (auto simp: celo_def split: completion.splits)
    with h obtain c where c: "toChain cj = Normal c"
      by (auto simp: celo_def split: completion.splits)
    from h cj c have ex: "ex = \<lparr>exp_chainJson = cj, exp_chain = c, exp_config = config,
        exp_bridgeConfig = bridgeConfig\<rparr>"
      by (simp add: celo_def)
    from chainJson_Normal_rpc [OF cj] have "rpc cj \<noteq> []" by simp
    with ex cj c show ?thesis by simp
  qed
  have produced: "\<exists>ex. celo toChain e = Normal ex"
    if "\<exists>cj c. chainJson e = Normal cj \<and> toChain cj = Normal c"
    using that by (auto simp: celo_def)
  have failed: "\<exists>err. celo toChain e = Throw err"
    if n: "\<not> (\<exists>cj c. chainJson e = Normal cj \<and> toChain cj = Normal c)"
  proof (cases "chainJson e")
    case (Throw err)
    then show ?thesis by (simp add: celo_def)
  next
    case (Normal cj)
    with n obtain err where "toChain cj = Throw err"
      by (cases "toChain cj") auto
    with Normal show ?thesis by (simp add: celo_def)
  qed
  from full produced failed show ?thesis by blast
qed

text \<open>
  Without an endpoint nothing is exported; with one, and a \<^verbatim>\<open>toChain\<close> that returns
  the descriptor it is given, every export is there.
\<close>

theorem composition_all_or_nothing_witness:
  "celo Normal Map.empty = Throw (Error ''Missing RPC URI'') \<and>
   (\<exists>ex. celo Normal [''CELO_RPC'' \<mapsto> ''https://forno.celo.org''] = Normal ex \<and>
      rpc (exp_chainJson ex) = ''https://forno.celo.org'' \<and>
      exp_config ex = config \<and> exp_bridgeConfig ex = bridgeConfig)"
proof -
  let ?e = "[''CELO_RPC'' \<mapsto> ''https://forno.celo.org'']"
  have cj: "chainJson ?e = Normal \<lparr>name = ''celo'', rpc = ''https://forno.celo.org'',
      deployerKey = None, domain = 0x63656c6f\<rparr>"
    by (simp add: chainJson_def celo_rpc_def)
  then have "\<exists>cj c. chainJson ?e = Normal cj \<and> Normal cj = Normal c" by simp
  with composition_all_or_nothing [of Normal ?e] obtain ex
    where ex: "celo Normal ?e = Normal ex" by blast
  from composition_all_or_nothing [of Normal ?e ex] ex
  have parts: "chainJson ?e = Normal (exp_chainJson ex) \<and>
      exp_config ex = config \<and> exp_bridgeConfig ex = bridgeConfig"
    by blast
  with cj have "exp_chainJson ex = \<lparr>name = ''celo'', rpc = ''https://forno.celo.org'',
      deployerKey = None, domain = 0x63656c6f\<rparr>"
    by simp
  then have "rpc (exp_chainJson ex) = ''https://forno.celo.org''"
    by simp
  with parts have "rpc (exp_chainJson ex) = ''https://forno.celo.org'' \<and>
      exp_config ex = config \<and> exp_bridgeConfig ex = bridgeConfig"
    by simp
  moreover have "\<not> (\<exists>cj c. chainJson Map.empty = Normal cj \<and> Normal cj = Normal c)"
    by (simp add: chainJson_def celo_rpc_def)
  with composition_all_or_nothing [of Normal Map.empty]
  have "\<exists>err. celo Normal Map.empty = Throw err" by blast
  then have "celo Normal Map.empty = Throw (Error ''Missing RPC URI'')"
    by (auto simp: celo_def chainJson_def celo_rpc_def)
  ultimately show ?thesis using ex by blast
qed

text \<open>The three address literals of lines 24, 26 and 28 have the written form of an address.\<close>

lemma config_addresses:
  "isHexAddress ''0xDB2091535eb0Ee447Ce170DDC25204FEA822dd81'' \<and>
   isHexAddress ''0x3D9330014952Bf0A3863FEB7a657bfFA5C9D40B9'' \<and>
   isHexAddress ''0xeE42B7757798cf495CDaA8eDb0CC237F07c60C81''"
  by (simp add: isHexAddress_def isHexDigit_def)

text \<open>
  C2. The concrete scenario. With \<^verbatim>\<open>CELO_RPC\<close> set to the public endpoint, the
  descriptor is built; its domain is the tag \<^verbatim>\<open>celo\<close> read as a big-endian integer,
  which is the number \<^verbatim>\<open>0x63656c6f\<close> of line 17. The literal \<^verbatim>\<open>config\<close> has the values
  the scenario lists (the two products are 86400 and 10800), and each of them meets the
  rule its field is checked by: the updater, the recovery manager and the one watcher
  are written as addresses, both durations are at least 0, no watcher is repeated, the
  processing gas is positive and the reserve gas at least 0. Whenever \<^verbatim>\<open>toChain\<close>
  returns, the module exports the composite of these values.
\<close>

theorem celo_scenario:
  "chainJson [''CELO_RPC'' \<mapsto> ''https://forno.celo.org''] =
     Normal \<lparr>name = ''celo'', rpc = ''https://forno.celo.org'', deployerKey = None,
             domain = asciiTagBigEndian ''celo''\<rparr> \<and>
   asciiTagBigEndian ''celo'' = 0x63656c6f \<and>
   config =
     \<lparr>environment = ''prod'',
      updater = ''0xDB2091535eb0Ee447Ce170DDC25204FEA822dd81'',
      recoveryTimelock = 86400,
      recoveryManager = ''0x3D9330014952Bf0A3863FEB7a657bfFA5C9D40B9'',
      optimisticSeconds = 10800,
      watchers = [''0xeE42B7757798cf495CDaA8eDb0CC237F07c60C81''],
      processGas = 850000,
      reserveGas = 15000\<rparr> \<and>
   isHexAddress (updater config) \<and> isHexAddress (recoveryManager config) \<and>
   0 \<le> recoveryTimelock config \<and> 0 \<le> optimisticSeconds config \<and>
   list_all isHexAddress (watchers config) \<and> distinct (watchers config) \<and>
   0 < processGas config \<and> 0 \<le> reserveGas config \<and>
   (\<forall>cj c. chainJson [''CELO_RPC'' \<mapsto> ''https://forno.celo.org''] = Normal cj \<and>
      toChain cj = Normal c \<longrightarrow>
      celo toChain [''CELO_RPC'' \<mapsto> ''https://forno.celo.org''] =
        Normal \<lparr>exp_chainJson = cj, exp_chain = c, exp_config = config,
                exp_bridgeConfig = bridgeConfig\<rparr>)"
proof -
  have tag: "asciiTagBigEndian ''celo'' = 0x63656c6f"
    by (simp add: asciiTagBigEndian_def)
  have cj: "chainJson [''CELO_RPC'' \<mapsto> ''https://forno.celo.org''] =
     Normal \<lparr>name = ''celo'', rpc = ''https://forno.celo.org'', deployerKey = None,
             domain = asciiTagBigEndian ''celo''\<rparr>"
    unfolding tag by (simp add: chainJson_def celo_rpc_def)
  have cfg: "config =
     \<lparr>environment = ''prod'',
      updater = ''0xDB2091535eb0Ee447Ce170DDC25204FEA822dd81'',
      recoveryTimelock = 86400,
      recoveryManager = ''0x3D9330014952Bf0A3863FEB7a657bfFA5C9D40B9'',
      optimisticSeconds = 10800,
      watchers = [''0xeE42B7757798cf495CDaA8eDb0CC237F07c60C81''],
      processGas = 850000,
      reserveGas = 15000\<rparr>"
    by (simp add: config_def)
  have addr: "isHexAddress (updater config) \<and> isHexAddress (recoveryManager config) \<and>
      list_all isHexAddress (watchers config)"
    using config_addresses by (simp add: config_def)
  have nums: "0 \<le> recoveryTimelock config \<and> 0 \<le> optimisticSeconds config \<and>
      distinct (watchers config) \<and> 0 < processGas config \<and> 0 \<le> reserveGas config"
    by (simp add: config_def)
  have whole: "\<forall>cj c. chainJson [''CELO_RPC'' \<mapsto> ''https://forno.celo.org''] = Normal cj \<and>
      toChain cj = Normal c \<longrightarrow>
      celo toChain [''CELO_RPC'' \<mapsto> ''https://forno.celo.org''] =
        Normal \<lparr>exp_chainJson = cj, exp_chain = c, exp_config = config,
                exp_bridgeConfig = bridgeConfig\<rparr>"
    by (simp add: celo_def)
  from tag cj cfg addr nums whole show ?thesis by blast
qed

text \<open>The scenario with a \<^verbatim>\<open>toChain\<close> that returns the descriptor it is given.\<close>

theorem celo_scenario_witness:
  "celo Normal [''CELO_RPC'' \<mapsto> ''https://forno.celo.org''] =
     Normal \<lparr>exp_chainJson =
               \<lparr>name = ''celo'', rpc = ''https://forno.celo.org'', deployerKey = None,
                domain = 0x63656c6f\<rparr>,
             exp_chain =
               \<lparr>name = ''celo'', rpc = ''https://forno.celo.org'', deployerKey = None,
                domain = 0x63656c6f\<rparr>,
             exp_config = config, exp_bridgeConfig = bridgeConfig\<rparr>"
  using celo_scenario [of Normal] by simp

section \<open>The bridge extension\<close>

text \<open>
  C8. The bridge extension is handed on as it is and never checked: the builder returns
  the record it is given and, given none, the empty record, which is the
  \<^verbatim>\<open>bridgeConfig\<close> of line 34. The bridge module is deployed exactly when the record
  has content. So the module under study, whenever it completes, exports the default
  record, with which the bridge module is not deployed.
\<close>

theorem bridge_extension_passthrough:
  "buildBridgeConfig (Some b) = b \<and>
   buildBridgeConfig None = bridgeConfig \<and>
   \<not> bridgeModuleDeployed bridgeConfig \<and>
   (bridgeModuleDeployed (buildBridgeConfig given) \<longleftrightarrow> (\<exists>c. given = Some c \<and> c \<noteq> [])) \<and>
   (celo toChain e = Normal ex \<longrightarrow>
      exp_bridgeConfig ex = buildBridgeConfig None \<and>
      \<not> bridgeModuleDeployed (exp_bridgeConfig ex))"
  by (auto simp: buildBridgeConfig_def bridgeModuleDeployed_def bridgeConfig_def celo_def
      split: option.splits completion.splits)

text \<open>A record with one property, no record, and the module's own export.\<close>

theorem bridge_extension_passthrough_witness:
  "buildBridgeConfig (Some [(''weth'', ''0xeE42B7757798cf495CDaA8eDb0CC237F07c60C81'')]) =
     [(''weth'', ''0xeE42B7757798cf495CDaA8eDb0CC237F07c60C81'')] \<and>
   bridgeModuleDeployed
     (buildBridgeConfig (Some [(''weth'', ''0xeE42B7757798cf495CDaA8eDb0CC237F07c60C81'')])) \<and>
   \<not> bridgeModuleDeployed (buildBridgeConfig None) \<and>
   (\<exists>ex. celo Normal [''CELO_RPC'' \<mapsto> ''https://forno.celo.org''] = Normal ex \<and>
      exp_bridgeConfig ex = [] \<and> \<not> bridgeModuleDeployed (exp_bridgeConfig ex))"
proof -
  let ?b = "[(''weth'', ''0xeE42B7757798cf495CDaA8eDb0CC237F07c60C81'')]"
  let ?e = "[''CELO_RPC'' \<mapsto> ''https://forno.celo.org'']"
  obtain ex where ex: "celo Normal ?e = Normal ex"
    by (simp add: celo_def chainJson_def celo_rpc_def)
  from bridge_extension_passthrough [of ?b "Some ?b" Normal ?e ex] ex
  show ?thesis by (auto simp: bridgeConfig_def)
qed

section \<open>The validator of the core configuration\<close>

lemma set_validateAddress:
  "set (validateAddress isAddress field a) = (if isAddress a then {} else {InvalidAddress field})"
  by (simp add: validateAddress_def)

lemma set_validateDuration:
  "set (validateDuration field d) = (if d < 0 then {InvalidDuration field} else {})"
  by (simp add: validateDuration_def)

lemma set_validateWatchers:
  "set (validateWatchers isAddress ws) =
     (if list_all isAddress ws then {} else {InvalidAddress ''watchers''}) \<union>
     (if distinct ws then {} else {DuplicateWatcher})"
  by (auto simp: validateWatchers_def set_validateAddress list_all_iff split: if_splits)

lemma set_validateGas:
  "set (validateGas p r) =
     (if 0 < p then {} else {InvalidGasBudget ''processGas''}) \<union>
     (if 0 \<le> r then {} else {InvalidGasBudget ''reserveGas''})"
  by (simp add: validateGas_def)

lemma set_validateCoreConfig:
  "set (validateCoreConfig isAddress c) =
     set (validateAddress isAddress ''updater'' (updater c)) \<union>
     set (validateAddress isAddress ''recoveryManager'' (recoveryManager c)) \<union>
     set (validateDuration ''recoveryTimelock'' (recoveryTimelock c)) \<union>
     set (validateDuration ''optimisticSeconds'' (optimisticSeconds c)) \<union>
     set (validateWatchers isAddress (watchers c)) \<union>
     set (validateGas (processGas c) (reserveGas c))"
  by (simp add: validateCoreConfig_def Un_assoc)

text \<open>The validator reports nothing exactly when every rule holds.\<close>

lemma validateCoreConfig_empty_iff:
  "validateCoreConfig isAddress c = [] \<longleftrightarrow>
     isAddress (updater c) \<and> isAddress (recoveryManager c) \<and>
     0 \<le> recoveryTimelock c \<and> 0 \<le> optimisticSeconds c \<and>
     list_all isAddress (watchers c) \<and> distinct (watchers c) \<and>
     0 < processGas c \<and> 0 \<le> reserveGas c"
proof -
  have "validateCoreConfig isAddress c = [] \<longleftrightarrow> set (validateCoreConfig isAddress c) = {}"
    by simp
  also have "\<dots> \<longleftrightarrow> isAddress (updater c) \<and> isAddress (recoveryManager c) \<and>
     0 \<le> recoveryTimelock c \<and> 0 \<le> optimisticSeconds c \<and>
     list_all isAddress (watchers c) \<and> distinct (watchers c) \<and>
     0 < processGas c \<and> 0 \<le> reserveGas c"
    unfolding set_validateCoreConfig set_validateAddress set_validateDuration
      set_validateWatchers set_validateGas
    by (auto split: if_splits)
  finally show ?thesis .
qed

lemma validated_Inl:
  "validatedCoreConfig isAddress c = Inl vs \<longleftrightarrow>
     vs = validateCoreConfig isAddress c \<and> vs \<noteq> []"
  by (auto simp: validatedCoreConfig_def split: list.splits)

lemma validated_Inr:
  "validatedCoreConfig isAddress c = Inr c' \<longleftrightarrow>
     c' = c \<and> validateCoreConfig isAddress c = []"
  by (auto simp: validatedCoreConfig_def split: list.splits)

text \<open>The literal of lines 22 to 32 passes the validator.\<close>

lemma config_validates: "validateCoreConfig isHexAddress config = []"
  using config_addresses by (simp add: validateCoreConfig_empty_iff config_def)

text \<open>
  C3. Two different well-formed addresses pass the check of the watchers, alone and
  as the watchers of a configuration that is valid otherwise. A list in which an address
  is repeated, such as \<open>[a, a]\<close>, is reported as \<^verbatim>\<open>DuplicateWatcher\<close>, and the
  validation of a configuration with such watchers fails with that error in its report.
\<close>

theorem watchers_validation:
  "(isAddress a \<and> isAddress b \<and> a \<noteq> b \<longrightarrow> validateWatchers isAddress [a, b] = []) \<and>
   (isAddress a \<and> isAddress b \<and> a \<noteq> b \<and> validateCoreConfig isAddress c = [] \<longrightarrow>
      validatedCoreConfig isAddress (c\<lparr>watchers := [a, b]\<rparr>) = Inr (c\<lparr>watchers := [a, b]\<rparr>)) \<and>
   DuplicateWatcher \<in> set (validateWatchers isAddress [a, a]) \<and>
   (\<not> distinct ws \<longrightarrow> DuplicateWatcher \<in> set (validateWatchers isAddress ws)) \<and>
   (\<not> distinct (watchers c) \<longrightarrow>
      (\<exists>vs. validatedCoreConfig isAddress c = Inl vs \<and> DuplicateWatcher \<in> set vs))"
proof (intro conjI impI)
  assume "isAddress a \<and> isAddress b \<and> a \<noteq> b"
  then have "set (validateWatchers isAddress [a, b]) = {}"
    by (simp add: set_validateWatchers)
  then show "validateWatchers isAddress [a, b] = []" by simp
next
  assume "isAddress a \<and> isAddress b \<and> a \<noteq> b \<and> validateCoreConfig isAddress c = []"
  then have "validateCoreConfig isAddress (c\<lparr>watchers := [a, b]\<rparr>) = []"
    by (simp add: validateCoreConfig_empty_iff)
  then show "validatedCoreConfig isAddress (c\<lparr>watchers := [a, b]\<rparr>) = Inr (c\<lparr>watchers := [a, b]\<rparr>)"
    by (simp add: validated_Inr)
next
  show "DuplicateWatcher \<in> set (validateWatchers isAddress [a, a])"
    by (simp add: set_validateWatchers)
next
  assume "\<not> distinct ws"
  then show "DuplicateWatcher \<in> set (validateWatchers isAddress ws)"
    by (simp add: set_validateWatchers)
next
  assume "\<not> distinct (watchers c)"
  then have m: "DuplicateWatcher \<in> set (validateCoreConfig isAddress c)"
    by (simp add: set_validateCoreConfig set_validateWatchers)
  then have "validateCoreConfig isAddress c \<noteq> []" by auto
  with m show "\<exists>vs. validatedCoreConfig isAddress c = Inl vs \<and> DuplicateWatcher \<in> set vs"
    by (simp add: validated_Inl)
qed

text \<open>
  The updater and the recovery manager of line 24 and line 26 as two watchers; the
  updater twice; the updater, the recovery manager and the updater again.
\<close>

theorem watchers_validation_witness:
  "validateWatchers isHexAddress
     [''0xDB2091535eb0Ee447Ce170DDC25204FEA822dd81'',
      ''0x3D9330014952Bf0A3863FEB7a657bfFA5C9D40B9''] = [] \<and>
   validatedCoreConfig isHexAddress
     (config\<lparr>watchers := [''0xDB2091535eb0Ee447Ce170DDC25204FEA822dd81'',
                           ''0x3D9330014952Bf0A3863FEB7a657bfFA5C9D40B9'']\<rparr>) =
     Inr (config\<lparr>watchers := [''0xDB2091535eb0Ee447Ce170DDC25204FEA822dd81'',
                                ''0x3D9330014952Bf0A3863FEB7a657bfFA5C9D40B9'']\<rparr>) \<and>
   DuplicateWatcher \<in> set (validateWatchers isHexAddress
     [''0xDB2091535eb0Ee447Ce170DDC25204FEA822dd81'',
      ''0xDB2091535eb0Ee447Ce170DDC25204FEA822dd81'']) \<and>
   (\<exists>vs. validatedCoreConfig isHexAddress
       (config\<lparr>watchers := [''0xDB2091535eb0Ee447Ce170DDC25204FEA822dd81'',
                             ''0x3D9330014952Bf0A3863FEB7a657bfFA5C9D40B9'',
                             ''0xDB2091535eb0Ee447Ce170DDC25204FEA822dd81'']\<rparr>) = Inl vs \<and>
      DuplicateWatcher \<in> set vs)"
proof -
  let ?a = "''0xDB2091535eb0Ee447Ce170DDC25204FEA822dd81''"
  let ?b = "''0x3D9330014952Bf0A3863FEB7a657bfFA5C9D40B9''"
  from config_addresses have a: "isHexAddress ?a" and b: "isHexAddress ?b"
    by simp_all
  have ab: "?a \<noteq> ?b" by simp
  have d: "\<not> distinct (watchers (config\<lparr>watchers := [?a, ?b, ?a]\<rparr>))" by simp
  from watchers_validation [of isHexAddress ?a ?b config "[?a, ?a]"] a b ab config_validates
    watchers_validation [of isHexAddress ?a ?b "config\<lparr>watchers := [?a, ?b, ?a]\<rparr>" "[?a, ?a]"] d
  show ?thesis by blast
qed

text \<open>
  C4. A recovery timelock below 0 makes the validation fail with \<^verbatim>\<open>InvalidDuration\<close>
  for that field in the report, and so does an optimistic delay below 0. A duration
  that is at least 0 passes its check, and when both are at least 0 the report holds no
  \<^verbatim>\<open>InvalidDuration\<close> at all.
\<close>

theorem durations_validation:
  "(recoveryTimelock c < 0 \<longrightarrow>
      (\<exists>vs. validatedCoreConfig isAddress c = Inl vs \<and>
            InvalidDuration ''recoveryTimelock'' \<in> set vs)) \<and>
   (optimisticSeconds c < 0 \<longrightarrow>
      (\<exists>vs. validatedCoreConfig isAddress c = Inl vs \<and>
            InvalidDuration ''optimisticSeconds'' \<in> set vs)) \<and>
   (0 \<le> d \<longrightarrow> validateDuration field d = []) \<and>
   (0 \<le> recoveryTimelock c \<and> 0 \<le> optimisticSeconds c \<longrightarrow>
      (\<forall>field. InvalidDuration field \<notin> set (validateCoreConfig isAddress c)))"
proof (intro conjI impI)
  assume "recoveryTimelock c < 0"
  then have m: "InvalidDuration ''recoveryTimelock'' \<in> set (validateCoreConfig isAddress c)"
    by (simp add: set_validateCoreConfig set_validateDuration)
  then have "validateCoreConfig isAddress c \<noteq> []" by auto
  with m show "\<exists>vs. validatedCoreConfig isAddress c = Inl vs \<and>
      InvalidDuration ''recoveryTimelock'' \<in> set vs"
    by (simp add: validated_Inl)
next
  assume "optimisticSeconds c < 0"
  then have m: "InvalidDuration ''optimisticSeconds'' \<in> set (validateCoreConfig isAddress c)"
    by (simp add: set_validateCoreConfig set_validateDuration)
  then have "validateCoreConfig isAddress c \<noteq> []" by auto
  with m show "\<exists>vs. validatedCoreConfig isAddress c = Inl vs \<and>
      InvalidDuration ''optimisticSeconds'' \<in> set vs"
    by (simp add: validated_Inl)
next
  assume "0 \<le> d"
  then show "validateDuration field d = []" by (simp add: validateDuration_def)
next
  assume "0 \<le> recoveryTimelock c \<and> 0 \<le> optimisticSeconds c"
  then show "\<forall>field. InvalidDuration field \<notin> set (validateCoreConfig isAddress c)"
    by (auto simp: set_validateCoreConfig set_validateAddress set_validateDuration
        set_validateWatchers set_validateGas split: if_splits)
qed

text \<open>
  The literal of lines 22 to 32 with a timelock of -1, with a delay of -1, and as it is.
  With the timelock of -1 the report names that field and nothing else.
\<close>

theorem durations_validation_witness:
  "(\<exists>vs. validatedCoreConfig isHexAddress (config\<lparr>recoveryTimelock := - 1\<rparr>) = Inl vs \<and>
      InvalidDuration ''recoveryTimelock'' \<in> set vs) \<and>
   (\<exists>vs. validatedCoreConfig isHexAddress (config\<lparr>optimisticSeconds := - 1\<rparr>) = Inl vs \<and>
      InvalidDuration ''optimisticSeconds'' \<in> set vs) \<and>
   validateDuration ''recoveryTimelock'' 0 = [] \<and>
   validateDuration ''optimisticSeconds'' 10800 = [] \<and>
   InvalidDuration ''recoveryTimelock'' \<notin> set (validateCoreConfig isHexAddress config) \<and>
   validateCoreConfig isHexAddress (config\<lparr>recoveryTimelock := - 1\<rparr>) =
     [InvalidDuration ''recoveryTimelock'']"
proof -
  have c: "0 \<le> recoveryTimelock config \<and> 0 \<le> optimisticSeconds config"
    by (simp add: config_def)
  have r: "validateCoreConfig isHexAddress (config\<lparr>recoveryTimelock := - 1\<rparr>) =
      [InvalidDuration ''recoveryTimelock'']"
    using config_addresses
    by (simp add: validateCoreConfig_def validateAddress_def validateDuration_def
        validateWatchers_def validateGas_def config_def)
  from durations_validation [of "config\<lparr>recoveryTimelock := - 1\<rparr>" isHexAddress 0 "''recoveryTimelock''"]
    durations_validation [of "config\<lparr>optimisticSeconds := - 1\<rparr>" isHexAddress 10800 "''optimisticSeconds''"]
    durations_validation [of config isHexAddress 0 "''recoveryTimelock''"] c r
  show ?thesis by simp
qed

end
